theory Spec2Isabelle
  imports Complex_Main
begin

section \<open>Values and errors\<close>

text \<open>
  A Python float: a finite value, read as the real number it denotes, or one of the three
  special values. The command line accepts all of them for an option of type float.
\<close>

datatype pyfloat = Finite real | PosInf | NegInf | NaN

text \<open>The comparison \<^verbatim>\<open>0.0 <= x\<close>; it is false for NaN.\<close>

fun nonneg :: "pyfloat \<Rightarrow> bool" where
  "nonneg (Finite r) = (0 \<le> r)"
| "nonneg PosInf = True"
| "nonneg NegInf = False"
| "nonneg NaN = False"

text \<open>Option values as the command line and keyword arguments carry them.\<close>

datatype pyval = PyInt int | PyFloat pyfloat | PyStr string | PyBool bool | PyNone

text \<open>
  The exceptions that cross the code of \<^verbatim>\<open>srresnet_module.py\<close>: the argument parser's
  exit on a usage error, a call that passes an argument twice, the failed unpacking of a
  batch that is not a pair, a value that a library constructor rejects, and a failure
  raised inside a collaborator (network, loss, constructors, orchestrator).
\<close>

datatype error = SystemExit int | TypeError | ValueError | RuntimeError

section \<open>The generator network\<close>

text \<open>
  Modelled from the spec: the class \<^verbatim>\<open>SRGANGenerator\<close> of
  \<^verbatim>\<open>pl_bolts/models/gans/srgan/components.py\<close> is not among the sources. The spec
  describes it as a fixed-topology feed-forward transformation from a low-resolution
  image tensor to a high-resolution image tensor, built from the layer primitives of the
  tensor library. Such a network carries, beside its parameter tensors, buffers that a
  call may update (the running statistics of its normalisation layers, in training mode).
  The model keeps what the adapter uses: the computation of a call, which takes the
  buffers and returns the output (or raises, for instance on a shape mismatch) with the
  buffers after the call; the list of parameter tensors; and the current buffers.
\<close>

record ('t, 'p, 'b) generator =
  net_forward :: "'b \<Rightarrow> 't \<Rightarrow> (error + 't) \<times> 'b"
  net_parameters :: "'p list"
  net_buffers :: 'b

text \<open>Calling the network object: \<^verbatim>\<open>self.srresnet(x)\<close>.\<close>

definition net_call ::
  "('t, 'p, 'b) generator \<Rightarrow> 't \<Rightarrow> (error + 't) \<times> ('t, 'p, 'b) generator" where
  "net_call net x =
     (case net_forward net (net_buffers net) x of (r, b) \<Rightarrow> (r, net\<lparr>net_buffers := b\<rparr>))"

section \<open>The model adapter \<^verbatim>\<open>SRResNet\<close>\<close>

record model_args =
  image_channels :: int
  feature_maps :: int
  learning_rate :: pyfloat

text \<open>
  \<^verbatim>\<open>self.hparams\<close> as \<^verbatim>\<open>save_hyperparameters()\<close> fills it when called without
  arguments inside \<^verbatim>\<open>__init__\<close>: the arguments of the constructor call, that is the three
  named ones and the entries of \<^verbatim>\<open>**kwargs\<close>, without the names that it always leaves
  out.
\<close>

record hparams = model_args +
  kwargs :: "string \<rightharpoonup> pyval"

definition excluded_names :: "string set" where
  "excluded_names = {''self'', ''kwargs'', ''__class__'', ''frame'', ''frame_args''}"

text \<open>The parameters of the signature of \<^verbatim>\<open>__init__\<close>.\<close>

definition signature_names :: "string set" where
  "signature_names = {''self'', ''image_channels'', ''feature_maps'', ''learning_rate''}"

text \<open>One call of \<^verbatim>\<open>self.log(name, value, on_step=..., on_epoch=...)\<close>.\<close>

record 's metric =
  metric_name :: string
  metric_value :: 's
  on_step :: bool
  on_epoch :: bool

record ('t, 'p, 'b, 's) SRResNet =
  hparams :: hparams
  srresnet :: "('t, 'p, 'b) generator"
  logged :: "'s metric list"

text \<open>
  \<^verbatim>\<open>__init__(self, image_channels=3, feature_maps=64, learning_rate=1e-4, **kwargs)\<close>.
  The three named arguments are given as the call passes them, by position or by keyword;
  one left out is \<open>None\<close> and takes its default. The last argument holds the other keyword
  arguments of the call. One of them that bears the name of a parameter of the signature
  passes that parameter a second time, which Python refuses with a \<^verbatim>\<open>TypeError\<close>. The
  generator's constructor is a parameter.
\<close>

definition SRResNet_init ::
  "(int \<Rightarrow> int \<Rightarrow> error + ('t, 'p, 'b) generator) \<Rightarrow> int option \<Rightarrow> int option
     \<Rightarrow> pyfloat option \<Rightarrow> (string \<rightharpoonup> pyval) \<Rightarrow> error + ('t, 'p, 'b, 's) SRResNet" where
  "SRResNet_init SRGANGenerator ic fm lr kw =
     (if dom kw \<inter> signature_names = {} then
        (let hp = \<lparr>image_channels = (case ic of None \<Rightarrow> 3 | Some v \<Rightarrow> v),
                   feature_maps = (case fm of None \<Rightarrow> 64 | Some v \<Rightarrow> v),
                   learning_rate = (case lr of None \<Rightarrow> Finite (1 / 10000) | Some v \<Rightarrow> v),
                   kwargs = kw |` (- excluded_names)\<rparr>
         in case SRGANGenerator (image_channels hp) (feature_maps hp) of
              Inl e \<Rightarrow> Inl e
            | Inr net \<Rightarrow> Inr \<lparr>hparams = hp, srresnet = net, logged = []\<rparr>)
      else Inl TypeError)"

text \<open>
  The optimizer object, as the arguments \<^verbatim>\<open>torch.optim.Adam\<close> was built from. Its
  constructor raises \<^verbatim>\<open>ValueError\<close> for an empty parameter list and for a learning
  rate for which \<^verbatim>\<open>0.0 <= lr\<close> does not hold.
\<close>

datatype 'p optimizer = Adam (param_groups: "'p list") (lr: pyfloat)

definition torch_optim_Adam :: "'p list \<Rightarrow> pyfloat \<Rightarrow> error + 'p optimizer" where
  "torch_optim_Adam params rate =
     (if params = [] then Inl ValueError
      else if nonneg rate then Inr (Adam params rate)
      else Inl ValueError)"

definition configure_optimizers :: "('t, 'p, 'b, 's) SRResNet \<Rightarrow> error + 'p optimizer" where
  "configure_optimizers self =
     torch_optim_Adam (net_parameters (srresnet self)) (learning_rate (hparams self))"

text \<open>
  The methods that the orchestrator calls on the adapter return their result together
  with the adapter's state after the call.
\<close>

definition forward ::
  "('t, 'p, 'b, 's) SRResNet \<Rightarrow> 't \<Rightarrow> (error + 't) \<times> ('t, 'p, 'b, 's) SRResNet" where
  "forward self x =
     (case net_call (srresnet self) x of (r, net) \<Rightarrow> (r, self\<lparr>srresnet := net\<rparr>))"

definition self_log ::
  "('t, 'p, 'b, 's) SRResNet \<Rightarrow> string \<Rightarrow> 's \<Rightarrow> bool \<Rightarrow> bool \<Rightarrow> ('t, 'p, 'b, 's) SRResNet" where
  "self_log self n v s e =
     self\<lparr>logged := logged self @ [\<lparr>metric_name = n, metric_value = v, on_step = s, on_epoch = e\<rparr>]\<rparr>"

text \<open>
  \<^verbatim>\<open>training_step(self, batch, batch_idx)\<close>. The loss function \<^verbatim>\<open>F.mse_loss\<close> of the
  tensor library is a parameter. A batch is the sequence that
  \<^verbatim>\<open>hr_image, lr_image = batch\<close> unpacks; any other length raises.
\<close>

fun training_step ::
  "('t \<Rightarrow> 't \<Rightarrow> error + 's) \<Rightarrow> ('t, 'p, 'b, 's) SRResNet \<Rightarrow> 't list \<Rightarrow> nat
     \<Rightarrow> (error + 's) \<times> ('t, 'p, 'b, 's) SRResNet" where
  "training_step mse_loss self [hr_image, lr_image] batch_idx =
     (case forward self lr_image of
        (Inl e, self1) \<Rightarrow> (Inl e, self1)
      | (Inr fake, self1) \<Rightarrow>
          (case mse_loss hr_image fake of
             Inl e \<Rightarrow> (Inl e, self1)
           | Inr loss \<Rightarrow> (Inr loss, self_log self1 ''loss'' loss True True)))"
| "training_step mse_loss self batch batch_idx = (Inl ValueError, self)"

section \<open>The command-line driver\<close>

datatype pytype = TInt | TFloat

record argument =
  arg_name :: string
  arg_default :: pyval
  arg_type :: pytype

definition add_argument :: "argument list \<Rightarrow> string \<Rightarrow> pyval \<Rightarrow> pytype \<Rightarrow> argument list" where
  "add_argument parser n d t = parser @ [\<lparr>arg_name = n, arg_default = d, arg_type = t\<rparr>]"

definition add_model_specific_args :: "argument list \<Rightarrow> argument list" where
  "add_model_specific_args parent_parser =
     (let parser = parent_parser;
          parser = add_argument parser ''--image_channels'' (PyInt 3) TInt;
          parser = add_argument parser ''--feature_maps'' (PyInt 64) TInt;
          parser = add_argument parser ''--learning_rate'' (PyFloat (Finite (1 / 10000))) TFloat
      in parser)"

text \<open>
  The parsed options: the three of the model adapter and \<^verbatim>\<open>log_interval\<close>, typed as
  declared to the parser, the orchestrator's \<^verbatim>\<open>max_epochs\<close> (an integer or
  \<^verbatim>\<open>None\<close>), and whatever else the dataset adapter and the orchestrator contribute.
\<close>

record namespace = model_args +
  log_interval :: int
  max_epochs :: "int option"
  others :: "string \<rightharpoonup> pyval"

text \<open>
  The entries of \<^verbatim>\<open>vars(args)\<close> that the call \<^verbatim>\<open>SRResNet(**vars(args))\<close> does not
  bind to the three named parameters.
\<close>

definition kwargs_of :: "namespace \<Rightarrow> (string \<rightharpoonup> pyval)" where
  "kwargs_of args =
     ((others args)(''log_interval'' \<mapsto> PyInt (log_interval args),
                    ''max_epochs'' \<mapsto> (case max_epochs args of None \<Rightarrow> PyNone | Some n \<Rightarrow> PyInt n)))
       |` (- {''image_channels'', ''feature_maps'', ''learning_rate''})"

datatype callback = SRImageLoggerCallback int

text \<open>Python's \<^verbatim>\<open>str\<close> of an integer, as an f-string inserts it.\<close>

function str_of_nat :: "nat \<Rightarrow> string" where
  "str_of_nat n =
     (if n < 10 then [''0123456789'' ! n]
      else str_of_nat (n div 10) @ [''0123456789'' ! (n mod 10)])"
  by pat_completeness auto
termination
  by (relation "measure (\<lambda>n. n)") auto

declare str_of_nat.simps [simp del]

definition str_of_int :: "int \<Rightarrow> string" where
  "str_of_int i = (if i < 0 then ''-'' @ str_of_nat (nat (- i)) else str_of_nat (nat i))"

definition str_of_int_option :: "int option \<Rightarrow> string" where
  "str_of_int_option v = (case v of None \<Rightarrow> ''None'' | Some i \<Rightarrow> str_of_int i)"

text \<open>
  The collaborators of \<^verbatim>\<open>cli_main\<close> that are not part of this repository's sources:
  the generator's constructor, the option groups of the dataset adapter and of the
  orchestrator, the argument parser's \<^verbatim>\<open>parse_args\<close>, the two
  \<^verbatim>\<open>from_argparse_args\<close> constructors, the orchestrator's \<^verbatim>\<open>fit\<close> (which trains the
  adapter in place and advances the step count) and its \<^verbatim>\<open>global_step\<close>.
\<close>

record ('t, 'p, 'b, 's, 'dm, 'tr) externals =
  SRGANGenerator :: "int \<Rightarrow> int \<Rightarrow> error + ('t, 'p, 'b) generator"
  dm_add_argparse_args :: "argument list \<Rightarrow> argument list"
  trainer_add_argparse_args :: "argument list \<Rightarrow> argument list"
  parse_args :: "argument list \<Rightarrow> string list option \<Rightarrow> error + namespace"
  dm_from_argparse_args :: "namespace \<Rightarrow> error + 'dm"
  trainer_from_argparse_args :: "namespace \<Rightarrow> callback list \<Rightarrow> error + 'tr"
  fit ::
    "'tr \<Rightarrow> ('t, 'p, 'b, 's) SRResNet \<Rightarrow> 'dm \<Rightarrow> error + (('t, 'p, 'b, 's) SRResNet \<times> 'tr)"
  global_step :: "'tr \<Rightarrow> nat"

text \<open>
  What \<^verbatim>\<open>cli_main\<close> does to the world, one event per action, in execution order. An
  event is recorded when its action starts.
\<close>

datatype ('t, 'p, 'b) event =
    SeedEverything int
  | BuildParser
  | ParseArgs
  | ConstructModel
  | ConstructDataModule
  | ConstructTrainer
  | Fit
  | TorchSave "('t, 'p, 'b) generator" string

definition cli_main ::
  "('t, 'p, 'b, 's, 'dm, 'tr) externals \<Rightarrow> string list option
     \<Rightarrow> ('t, 'p, 'b) event list \<times> (error + unit)" where
  "cli_main ext argv =
     (let t0 = [SeedEverything 1234];
          parser = add_argument [] ''--log_interval'' (PyInt 1000) TInt;
          parser = dm_add_argparse_args ext parser;
          parser = trainer_add_argparse_args ext parser;
          parser = add_model_specific_args parser;
          t1 = t0 @ [BuildParser, ParseArgs]
      in case parse_args ext parser argv of
           Inl e \<Rightarrow> (t1, Inl e)
         | Inr args \<Rightarrow>
     (let t2 = t1 @ [ConstructModel]
      in case SRResNet_init (SRGANGenerator ext) (Some (image_channels args))
                (Some (feature_maps args)) (Some (learning_rate args)) (kwargs_of args) of
           Inl e \<Rightarrow> (t2, Inl e)
         | Inr model \<Rightarrow>
     (let t3 = t2 @ [ConstructDataModule]
      in case dm_from_argparse_args ext args of
           Inl e \<Rightarrow> (t3, Inl e)
         | Inr dm \<Rightarrow>
     (let t4 = t3 @ [ConstructTrainer]
      in case trainer_from_argparse_args ext args [SRImageLoggerCallback (log_interval args)] of
           Inl e \<Rightarrow> (t4, Inl e)
         | Inr trainer \<Rightarrow>
     (let t5 = t4 @ [Fit]
      in case fit ext trainer model dm of
           Inl e \<Rightarrow> (t5, Inl e)
         | Inr (model1, trainer1) \<Rightarrow>
             (t5 @ [TorchSave (srresnet model1)
                      (''srresnet-epoch='' @ str_of_int_option (max_epochs args) @ ''-step=''
                         @ str_of_nat (global_step ext trainer1) @ ''.pt'')],
              Inr ()))))))"

text \<open>The files that a run has written with \<^verbatim>\<open>torch.save\<close>: file name and saved object.\<close>

fun saved :: "('t, 'p, 'b) event \<Rightarrow> (string \<times> ('t, 'p, 'b) generator) option" where
  "saved (TorchSave obj f) = Some (f, obj)"
| "saved _ = None"

definition artifacts ::
  "('t, 'p, 'b) event list \<Rightarrow> (string \<times> ('t, 'p, 'b) generator) list" where
  "artifacts trace = List.map_filter saved trace"

section \<open>The package \<^verbatim>\<open>pl_bolts.datamodules\<close>\<close>

text \<open>
  \<^verbatim>\<open>pl_bolts/datamodules/__init__.py\<close> is six \<^verbatim>\<open>from module import names\<close> statements,
  each given by the dotted path of the module and the imported names. Running one in the
  package \<open>pkg\<close> loads the module, which binds a module that lies directly in \<open>pkg\<close> under
  its own name in the namespace of \<open>pkg\<close>, and then binds each imported name to the
  attribute of that name of the module. The namespace is taken without the attributes
  that every package has (\<^verbatim>\<open>__name__\<close>, \<^verbatim>\<open>__path__\<close> and the like) and without what the
  loaded modules import in their turn.
\<close>

datatype binding = Submodule "string list" | Attribute "string list" string

definition datamodules_package :: "string list" where
  "datamodules_package = [''pl_bolts'', ''datamodules'']"

definition datamodules_init :: "(string list \<times> string list) list" where
  "datamodules_init =
     [([''pl_bolts'', ''datamodules'', ''lightning_datamodule''], [''LightningDataModule'']),
      ([''pl_bolts'', ''datamodules'', ''imagenet_datamodule''], [''ImagenetDataModule'']),
      ([''pl_bolts'', ''datamodules'', ''cifar10_datamodule''], [''CIFAR10DataModule'']),
      ([''pl_bolts'', ''datamodules'', ''mnist_datamodule''], [''MNISTDataModule'']),
      ([''pl_bolts'', ''datamodules'', ''stl10_datamodule''], [''STL10DataModule'']),
      ([''pl_bolts'', ''datamodules'', ''sklearn_datamodule''],
         [''SklearnDataset'', ''SklearnDataModule''])]"

definition import_from ::
  "string list \<Rightarrow> (string \<rightharpoonup> binding) \<Rightarrow> string list \<times> string list \<Rightarrow> (string \<rightharpoonup> binding)" where
  "import_from pkg ns stmt =
     (let module = fst stmt;
          ns1 = (if module = [] then ns
                 else if butlast module = pkg then ns(last module \<mapsto> Submodule module)
                 else ns)
      in foldl (\<lambda>ns n. ns(n \<mapsto> Attribute module n)) ns1 (snd stmt))"

definition datamodules_namespace :: "string \<rightharpoonup> binding" where
  "datamodules_namespace = foldl (import_from datamodules_package) Map.empty datamodules_init"

text \<open>
  The catalog as the spec words it: the adapters for ImageNet, CIFAR-10, MNIST and STL-10
  and the generic tabular/array adapter.
\<close>

definition spec_catalog :: "string set" where
  "spec_catalog =
     {''ImagenetDataModule'', ''CIFAR10DataModule'', ''MNISTDataModule'', ''STL10DataModule'',
      ''SklearnDataModule''}"

section \<open>Concrete collaborators\<close>

text \<open>
  Instances of the parameters, to run the adapter and the driver on concrete inputs:
  one-element tensors over the reals, for which the mean squared error is the squared
  difference; a one-weight network without buffers that doubles its input; the same
  network with one buffer, the number of batches it has seen, which every call advances;
  and collaborators of the driver whose parser returns a given namespace and whose
  orchestrator trains on zero batches, so the adapter and the step count stay as they
  were.
\<close>

definition mse_loss_1 :: "real \<Rightarrow> real \<Rightarrow> error + real" where
  "mse_loss_1 input target = Inr ((input - target)\<^sup>2)"

definition double_net :: "(real, real, unit) generator" where
  "double_net = \<lparr>net_forward = (\<lambda>b x. (Inr (2 * x), b)), net_parameters = [2], net_buffers = ()\<rparr>"

definition tracking_net :: "(real, real, nat) generator" where
  "tracking_net =
     \<lparr>net_forward = (\<lambda>b x. (Inr (2 * x), Suc b)), net_parameters = [2], net_buffers = 0\<rparr>"

definition default_hparams :: hparams where
  "default_hparams =
     \<lparr>image_channels = 3, feature_maps = 64, learning_rate = Finite (1 / 10000),
      kwargs = Map.empty\<rparr>"

definition double_adapter :: "(real, real, unit, real) SRResNet" where
  "double_adapter = \<lparr>hparams = default_hparams, srresnet = double_net, logged = []\<rparr>"

definition tracking_adapter :: "(real, real, nat, real) SRResNet" where
  "tracking_adapter = \<lparr>hparams = default_hparams, srresnet = tracking_net, logged = []\<rparr>"

definition default_namespace :: namespace where
  "default_namespace =
     \<lparr>image_channels = 3, feature_maps = 64, learning_rate = Finite (1 / 10000),
      log_interval = 1000, max_epochs = None, others = Map.empty\<rparr>"

definition stub_externals :: "namespace \<Rightarrow> (real, real, unit, real, unit, nat) externals" where
  "stub_externals ns =
     \<lparr>SRGANGenerator = (\<lambda>ic fm. Inr double_net),
      dm_add_argparse_args = (\<lambda>parser. parser),
      trainer_add_argparse_args = (\<lambda>parser. add_argument parser ''--max_epochs'' PyNone TInt),
      parse_args = (\<lambda>parser argv. Inr ns),
      dm_from_argparse_args = (\<lambda>args. Inr ()),
      trainer_from_argparse_args = (\<lambda>args callbacks. Inr 0),
      fit = (\<lambda>trainer model dm. Inr (model, trainer)),
      global_step = (\<lambda>trainer. trainer)\<rparr>"

section \<open>The frame of a call\<close>

lemma forward_hparams: "hparams (snd (forward self x)) = hparams self"
  by (simp add: forward_def split: prod.splits)

lemma forward_logged: "logged (snd (forward self x)) = logged self"
  by (simp add: forward_def split: prod.splits)

lemma training_step_hparams:
  "hparams (snd (training_step mse_loss self batch i)) = hparams self"
proof (cases "(mse_loss, self, batch, i)" rule: training_step.cases)
  case (1 mse_loss' self' hr_image lr_image batch_idx)
  then show ?thesis
    using forward_hparams [of self lr_image]
    by (cases "forward self lr_image") (simp add: self_log_def split: sum.splits)
qed simp_all

section \<open>The training step\<close>

text \<open>
  C1. For a batch that is a pair \<open>(hr_image, lr_image)\<close> and any batch index,
  \<open>training_step\<close> applies \<open>forward\<close> to the low-resolution member, takes the mean squared
  error between the high-resolution member and that output, logs the scalar under the name
  \<^verbatim>\<open>loss\<close> with both \<open>on_step\<close> and \<open>on_epoch\<close> set, and returns the same scalar. The
  adapter after the step is the adapter after \<open>forward\<close> with that one entry added to the
  log.
\<close>

theorem training_step_returns_logged_mse:
  assumes "fst (forward self lr_image) = Inr fake"
    and "mse_loss hr_image fake = Inr loss"
  shows "training_step mse_loss self [hr_image, lr_image] batch_idx =
           (Inr loss,
            (snd (forward self lr_image))\<lparr>logged := logged self @
              [\<lparr>metric_name = ''loss'', metric_value = loss, on_step = True, on_epoch = True\<rparr>]\<rparr>)"
  using assms forward_logged [of self lr_image]
  by (cases "forward self lr_image") (simp add: self_log_def)

text \<open>
  The doubling network on the pair \<open>(10, 3)\<close>: the output is \<open>6\<close>, the loss \<open>16\<close>.
\<close>

theorem training_step_returns_logged_mse_witness:
  "fst (forward double_adapter 3) = Inr 6 \<and> mse_loss_1 10 6 = Inr 16 \<and>
   training_step mse_loss_1 double_adapter [10, 3] 0 =
     (Inr 16,
      double_adapter\<lparr>logged :=
        [\<lparr>metric_name = ''loss'', metric_value = 16, on_step = True, on_epoch = True\<rparr>]\<rparr>)"
proof -
  have f: "fst (forward double_adapter 3) = Inr 6"
    by (simp add: forward_def net_call_def double_adapter_def double_net_def)
  have s: "snd (forward double_adapter 3) = double_adapter"
    by (simp add: forward_def net_call_def double_adapter_def double_net_def)
  have l: "mse_loss_1 10 6 = Inr 16"
    by (simp add: mse_loss_1_def power2_eq_square)
  have "logged double_adapter = []"
    by (simp add: double_adapter_def)
  with training_step_returns_logged_mse
         [where self = double_adapter and lr_image = 3 and fake = 6 and mse_loss = mse_loss_1
            and hr_image = 10 and loss = 16 and batch_idx = 0] f l s
  show ?thesis
    by simp
qed




text \<open>
  C9. The batch index has no influence: from the same adapter state and batch, any two
  indices give the same result and the same state after the call.
\<close>

theorem training_step_ignores_batch_idx:
  "training_step mse_loss self batch i = training_step mse_loss self batch j"
  by (cases "(mse_loss, self, batch, i)" rule: training_step.cases) simp_all

section \<open>Inference\<close>

text \<open>
  C6, as stated: \<open>forward\<close> leaves all state of the adapter unchanged. It calls the owned
  network, and the call of a network with buffers updates them: for the network that
  counts the batches it has seen, the adapter after \<open>forward\<close> is another one, its count
  advanced from \<open>0\<close> to \<open>1\<close>.
\<close>

theorem forward_changes_buffers_counterexample:
  "fst (forward tracking_adapter 3) = Inr 6 \<and>
   snd (forward tracking_adapter 3) \<noteq> tracking_adapter \<and>
   net_buffers (srresnet tracking_adapter) = 0 \<and>
   net_buffers (srresnet (snd (forward tracking_adapter 3))) = 1"
proof -
  have b: "net_buffers (srresnet (snd (forward tracking_adapter 3))) = 1"
    by (simp add: forward_def net_call_def tracking_adapter_def tracking_net_def)
  have a: "net_buffers (srresnet tracking_adapter) = 0"
    by (simp add: tracking_adapter_def tracking_net_def)
  from a b have "snd (forward tracking_adapter 3) \<noteq> tracking_adapter"
    by auto
  moreover have "fst (forward tracking_adapter 3) = Inr 6"
    by (simp add: forward_def net_call_def tracking_adapter_def tracking_net_def)
  ultimately show ?thesis
    using a b by simp
qed

text \<open>
  C6, amended: \<open>forward x\<close> returns exactly the result of the owned generator network's
  computation on \<open>x\<close>. Of the adapter it changes nothing but the buffers of the owned
  network, which become the buffers that this computation returns: the hyperparameters,
  the log, and the network's computation and parameters stay as they were. When the
  computation returns the buffers it was given, the adapter after the call is the adapter
  before it.
\<close>

theorem forward_changes_only_buffers:
  "fst (forward self x) = fst (net_forward (srresnet self) (net_buffers (srresnet self)) x) \<and>
   snd (forward self x) =
     self\<lparr>srresnet := (srresnet self)
       \<lparr>net_buffers := snd (net_forward (srresnet self) (net_buffers (srresnet self)) x)\<rparr>\<rparr> \<and>
   (snd (net_forward (srresnet self) (net_buffers (srresnet self)) x) = net_buffers (srresnet self)
      \<longrightarrow> snd (forward self x) = self)"
  by (simp add: forward_def net_call_def split: prod.splits)

text \<open>
  The doubling network without buffers: \<open>forward\<close> returns \<open>6\<close> for \<open>3\<close> and the adapter
  is as before.
\<close>

theorem forward_changes_only_buffers_witness:
  "snd (net_forward (srresnet double_adapter) (net_buffers (srresnet double_adapter)) 3) =
     net_buffers (srresnet double_adapter) \<and>
   fst (forward double_adapter 3) = Inr 6 \<and> snd (forward double_adapter 3) = double_adapter"
proof -
  have h: "snd (net_forward (srresnet double_adapter) (net_buffers (srresnet double_adapter)) 3) =
             net_buffers (srresnet double_adapter)"
    by simp
  have v: "fst (net_forward (srresnet double_adapter) (net_buffers (srresnet double_adapter)) 3)
             = Inr 6"
    by (simp add: double_adapter_def double_net_def)
  from forward_changes_only_buffers [of double_adapter 3] h v show ?thesis
    by simp
qed

section \<open>The optimizer\<close>

text \<open>
  C5, as stated: for every constructed adapter \<open>configure_optimizers\<close> returns an
  optimizer. Construction accepts any learning rate, and \<^verbatim>\<open>torch.optim.Adam\<close> refuses a
  negative one: the adapter constructed with \<^verbatim>\<open>learning_rate=-1.0\<close> raises
  \<^verbatim>\<open>ValueError\<close> in \<open>configure_optimizers\<close>.
\<close>

theorem configure_optimizers_counterexample:
  "(SRResNet_init (\<lambda>ic fm. Inr double_net) None None (Some (Finite (- 1))) Map.empty
      :: error + (real, real, unit, real) SRResNet) =
     Inr (double_adapter\<lparr>hparams := default_hparams\<lparr>learning_rate := Finite (- 1)\<rparr>\<rparr>) \<and>
   configure_optimizers (double_adapter\<lparr>hparams := default_hparams\<lparr>learning_rate := Finite (- 1)\<rparr>\<rparr>)
     = Inl ValueError"
  by (simp add: SRResNet_init_def configure_optimizers_def torch_optim_Adam_def
        double_adapter_def default_hparams_def double_net_def)

text \<open>
  C5, amended: a constructed adapter owns the generator network that the generator's
  constructor returned for its channel count and feature-map width. When its declared
  learning rate satisfies \<^verbatim>\<open>0.0 <= lr\<close> and that network has at least one parameter,
  \<open>configure_optimizers\<close> returns one Adam optimizer, built with the declared learning rate
  over exactly the parameters of the owned network; otherwise (a negative or NaN learning
  rate, or no parameter) it raises \<^verbatim>\<open>ValueError\<close>.
\<close>

theorem configure_optimizers_adam_over_generator:
  assumes "SRResNet_init gen ic fm rate kw = Inr self"
  shows "gen (case ic of None \<Rightarrow> 3 | Some v \<Rightarrow> v) (case fm of None \<Rightarrow> 64 | Some v \<Rightarrow> v)
           = Inr (srresnet self) \<and>
         learning_rate (hparams self) = (case rate of None \<Rightarrow> Finite (1 / 10000) | Some v \<Rightarrow> v) \<and>
         configure_optimizers self =
           (if nonneg (learning_rate (hparams self)) \<and> net_parameters (srresnet self) \<noteq> []
            then Inr (Adam (net_parameters (srresnet self)) (learning_rate (hparams self)))
            else Inl ValueError)"
  using assms
  by (auto simp add: SRResNet_init_def Let_def configure_optimizers_def torch_optim_Adam_def
        split: if_splits sum.splits)

text \<open>
  Construction with the defaults and the doubling network: Adam over its one parameter
  with the learning rate \<open>1e-4\<close>.
\<close>

theorem configure_optimizers_adam_over_generator_witness:
  "(SRResNet_init (\<lambda>ic fm. Inr double_net) None None None Map.empty
      :: error + (real, real, unit, real) SRResNet) = Inr double_adapter \<and>
   configure_optimizers double_adapter = Inr (Adam [2] (Finite (1 / 10000)))"
proof -
  have c: "(SRResNet_init (\<lambda>ic fm. Inr double_net) None None None Map.empty
      :: error + (real, real, unit, real) SRResNet) = Inr double_adapter"
    by (simp add: SRResNet_init_def double_adapter_def default_hparams_def)
  have "net_parameters (srresnet double_adapter) = [2]"
    by (simp add: double_adapter_def double_net_def)
  with configure_optimizers_adam_over_generator [OF c] c show ?thesis
    by simp
qed

section \<open>Construction with extra keyword options\<close>

lemma SRResNet_init_TypeError:
  "dom kw \<inter> signature_names \<noteq> {} \<Longrightarrow> SRResNet_init gen ic fm rate kw = Inl TypeError"
  by (simp add: SRResNet_init_def)

text \<open>
  C10, as stated: construction with extra keyword options yields the same adapter as
  construction without them. The extra options are part of the hyperparameter set of the
  adapter, so the two adapters differ.
\<close>

theorem SRResNet_init_extra_kwargs_counterexample:
  "(SRResNet_init (\<lambda>ic fm. Inr double_net) None None None [''log_interval'' \<mapsto> PyInt 1000]
      :: error + (real, real, unit, real) SRResNet)
   \<noteq> SRResNet_init (\<lambda>ic fm. Inr double_net) None None None Map.empty"
proof -
  have "(([''log_interval'' \<mapsto> PyInt 1000] |` (- excluded_names)) :: string \<rightharpoonup> pyval)
          ''log_interval'' \<noteq> (Map.empty |` (- excluded_names)) ''log_interval''"
    by (simp add: excluded_names_def)
  then have "(([''log_interval'' \<mapsto> PyInt 1000] |` (- excluded_names)) :: string \<rightharpoonup> pyval)
          \<noteq> Map.empty |` (- excluded_names)"
    by metis
  then show ?thesis
    by (simp add: SRResNet_init_def signature_names_def)
qed

text \<open>
  C10, amended: construction with extra keyword options, none of which bears the name of
  a parameter of the signature (\<^verbatim>\<open>self\<close> or one of the three declared options), fails
  or succeeds exactly as construction without them does. Where it succeeds the adapter has
  the same generator network, the same three declared hyperparameters and the same empty
  log; it differs only in that the extra options are recorded in its hyperparameter set,
  except those named \<^verbatim>\<open>self\<close>, \<^verbatim>\<open>kwargs\<close>, \<^verbatim>\<open>__class__\<close>, \<^verbatim>\<open>frame\<close> or
  \<^verbatim>\<open>frame_args\<close>, which are left out. Among the options that \<open>cli_main\<close> passes this
  way are \<^verbatim>\<open>log_interval\<close> and the orchestrator's \<^verbatim>\<open>max_epochs\<close>. (An extra option
  with the name of a parameter of the signature raises \<^verbatim>\<open>TypeError\<close>:
  \<open>SRResNet_init_TypeError\<close>.)
\<close>

theorem SRResNet_init_extra_kwargs:
  assumes "dom kw \<inter> signature_names = {}"
  shows "(case SRResNet_init gen ic fm rate Map.empty of
            Inl e \<Rightarrow> SRResNet_init gen ic fm rate kw = Inl e
          | Inr m \<Rightarrow> SRResNet_init gen ic fm rate kw =
                      Inr (m\<lparr>hparams := (hparams m)\<lparr>kwargs := kw |` (- excluded_names)\<rparr>\<rparr>)) \<and>
         kwargs_of args ''log_interval'' = Some (PyInt (log_interval args)) \<and>
         kwargs_of args ''max_epochs'' =
           Some (case max_epochs args of None \<Rightarrow> PyNone | Some n \<Rightarrow> PyInt n)"
  using assms
  by (simp add: SRResNet_init_def Let_def kwargs_of_def restrict_map_def split: sum.splits)

text \<open>
  The extras \<^verbatim>\<open>log_interval=1000\<close> and \<^verbatim>\<open>frame=1\<close>: the first is recorded, the second
  left out.
\<close>

theorem SRResNet_init_extra_kwargs_witness:
  "dom [''log_interval'' \<mapsto> PyInt 1000, ''frame'' \<mapsto> PyInt 1] \<inter> signature_names = {} \<and>
   (SRResNet_init (\<lambda>ic fm. Inr double_net) None None None
      [''log_interval'' \<mapsto> PyInt 1000, ''frame'' \<mapsto> PyInt 1]
      :: error + (real, real, unit, real) SRResNet) =
     Inr (double_adapter\<lparr>hparams := default_hparams\<lparr>kwargs := [''log_interval'' \<mapsto> PyInt 1000]\<rparr>\<rparr>)"
proof -
  have d: "dom [''log_interval'' \<mapsto> PyInt 1000, ''frame'' \<mapsto> PyInt 1] \<inter> signature_names = {}"
    by (simp add: signature_names_def)
  have c: "(SRResNet_init (\<lambda>ic fm. Inr double_net) None None None Map.empty
      :: error + (real, real, unit, real) SRResNet) = Inr double_adapter"
    by (simp add: SRResNet_init_def double_adapter_def default_hparams_def)
  have r: "[''log_interval'' \<mapsto> PyInt 1000, ''frame'' \<mapsto> PyInt 1] |` (- excluded_names) =
             [''log_interval'' \<mapsto> PyInt 1000]"
    by (rule ext) (simp add: restrict_map_def excluded_names_def)
  have h: "hparams double_adapter = default_hparams"
    by (simp add: double_adapter_def)
  from SRResNet_init_extra_kwargs
         [OF d, where gen = "\<lambda>ic fm. Inr double_net" and ic = None and fm = None and rate = None]
  have "case (SRResNet_init (\<lambda>ic fm. Inr double_net) None None None Map.empty
                :: error + (real, real, unit, real) SRResNet) of
          Inl e \<Rightarrow> SRResNet_init (\<lambda>ic fm. Inr double_net) None None None
                     [''log_interval'' \<mapsto> PyInt 1000, ''frame'' \<mapsto> PyInt 1] = Inl e
        | Inr m \<Rightarrow> SRResNet_init (\<lambda>ic fm. Inr double_net) None None None
                     [''log_interval'' \<mapsto> PyInt 1000, ''frame'' \<mapsto> PyInt 1] =
                   Inr (m\<lparr>hparams := (hparams m)\<lparr>kwargs :=
                     [''log_interval'' \<mapsto> PyInt 1000, ''frame'' \<mapsto> PyInt 1] |` (- excluded_names)\<rparr>\<rparr>)"
    by (rule conjunct1)
  then have "(SRResNet_init (\<lambda>ic fm. Inr double_net) None None None
      [''log_interval'' \<mapsto> PyInt 1000, ''frame'' \<mapsto> PyInt 1]
      :: error + (real, real, unit, real) SRResNet) =
     Inr (double_adapter\<lparr>hparams := default_hparams\<lparr>kwargs := [''log_interval'' \<mapsto> PyInt 1000]\<rparr>\<rparr>)"
    by (simp only: c sum.case r h)
  with d show ?thesis
    by (rule conjI)
qed

section \<open>The names that the datamodule package exports\<close>

text \<open>
  C8, as stated: the package re-exports exactly the five adapters of the catalog. It also
  binds \<^verbatim>\<open>LightningDataModule\<close>, which is not in the catalog.
\<close>

theorem datamodules_catalog_counterexample:
  "''LightningDataModule'' \<in> dom datamodules_namespace \<and> ''LightningDataModule'' \<notin> spec_catalog"
  by (simp add: datamodules_namespace_def datamodules_init_def datamodules_package_def
        import_from_def Let_def spec_catalog_def)

text \<open>
  C8, amended: the package's namespace holds thirteen names. Seven are classes, each bound
  under its own name to the attribute of that name of the module that the import statement
  names: the five adapters of the catalog, the base class \<^verbatim>\<open>LightningDataModule\<close> and
  the dataset class \<^verbatim>\<open>SklearnDataset\<close>. The other six are the submodules that the six
  import statements load. The module consists of import statements only.
\<close>

theorem datamodules_namespace_exports:
  "datamodules_namespace =
     [''lightning_datamodule'' \<mapsto> Submodule [''pl_bolts'', ''datamodules'', ''lightning_datamodule''],
      ''LightningDataModule'' \<mapsto>
         Attribute [''pl_bolts'', ''datamodules'', ''lightning_datamodule''] ''LightningDataModule'',
      ''imagenet_datamodule'' \<mapsto> Submodule [''pl_bolts'', ''datamodules'', ''imagenet_datamodule''],
      ''ImagenetDataModule'' \<mapsto>
         Attribute [''pl_bolts'', ''datamodules'', ''imagenet_datamodule''] ''ImagenetDataModule'',
      ''cifar10_datamodule'' \<mapsto> Submodule [''pl_bolts'', ''datamodules'', ''cifar10_datamodule''],
      ''CIFAR10DataModule'' \<mapsto>
         Attribute [''pl_bolts'', ''datamodules'', ''cifar10_datamodule''] ''CIFAR10DataModule'',
      ''mnist_datamodule'' \<mapsto> Submodule [''pl_bolts'', ''datamodules'', ''mnist_datamodule''],
      ''MNISTDataModule'' \<mapsto>
         Attribute [''pl_bolts'', ''datamodules'', ''mnist_datamodule''] ''MNISTDataModule'',
      ''stl10_datamodule'' \<mapsto> Submodule [''pl_bolts'', ''datamodules'', ''stl10_datamodule''],
      ''STL10DataModule'' \<mapsto>
         Attribute [''pl_bolts'', ''datamodules'', ''stl10_datamodule''] ''STL10DataModule'',
      ''sklearn_datamodule'' \<mapsto> Submodule [''pl_bolts'', ''datamodules'', ''sklearn_datamodule''],
      ''SklearnDataset'' \<mapsto>
         Attribute [''pl_bolts'', ''datamodules'', ''sklearn_datamodule''] ''SklearnDataset'',
      ''SklearnDataModule'' \<mapsto>
         Attribute [''pl_bolts'', ''datamodules'', ''sklearn_datamodule''] ''SklearnDataModule''] \<and>
   dom datamodules_namespace =
     spec_catalog \<union> {''LightningDataModule'', ''SklearnDataset''} \<union>
     {''lightning_datamodule'', ''imagenet_datamodule'', ''cifar10_datamodule'',
      ''mnist_datamodule'', ''stl10_datamodule'', ''sklearn_datamodule''}"
proof -
  have m: "datamodules_namespace =
     [''lightning_datamodule'' \<mapsto> Submodule [''pl_bolts'', ''datamodules'', ''lightning_datamodule''],
      ''LightningDataModule'' \<mapsto>
         Attribute [''pl_bolts'', ''datamodules'', ''lightning_datamodule''] ''LightningDataModule'',
      ''imagenet_datamodule'' \<mapsto> Submodule [''pl_bolts'', ''datamodules'', ''imagenet_datamodule''],
      ''ImagenetDataModule'' \<mapsto>
         Attribute [''pl_bolts'', ''datamodules'', ''imagenet_datamodule''] ''ImagenetDataModule'',
      ''cifar10_datamodule'' \<mapsto> Submodule [''pl_bolts'', ''datamodules'', ''cifar10_datamodule''],
      ''CIFAR10DataModule'' \<mapsto>
         Attribute [''pl_bolts'', ''datamodules'', ''cifar10_datamodule''] ''CIFAR10DataModule'',
      ''mnist_datamodule'' \<mapsto> Submodule [''pl_bolts'', ''datamodules'', ''mnist_datamodule''],
      ''MNISTDataModule'' \<mapsto>
         Attribute [''pl_bolts'', ''datamodules'', ''mnist_datamodule''] ''MNISTDataModule'',
      ''stl10_datamodule'' \<mapsto> Submodule [''pl_bolts'', ''datamodules'', ''stl10_datamodule''],
      ''STL10DataModule'' \<mapsto>
         Attribute [''pl_bolts'', ''datamodules'', ''stl10_datamodule''] ''STL10DataModule'',
      ''sklearn_datamodule'' \<mapsto> Submodule [''pl_bolts'', ''datamodules'', ''sklearn_datamodule''],
      ''SklearnDataset'' \<mapsto>
         Attribute [''pl_bolts'', ''datamodules'', ''sklearn_datamodule''] ''SklearnDataset'',
      ''SklearnDataModule'' \<mapsto>
         Attribute [''pl_bolts'', ''datamodules'', ''sklearn_datamodule''] ''SklearnDataModule'']"
    by (simp add: datamodules_namespace_def datamodules_init_def datamodules_package_def
          import_from_def Let_def)
  have d: "dom datamodules_namespace =
     spec_catalog \<union> {''LightningDataModule'', ''SklearnDataset''} \<union>
     {''lightning_datamodule'', ''imagenet_datamodule'', ''cifar10_datamodule'',
      ''mnist_datamodule'', ''stl10_datamodule'', ''sklearn_datamodule''}"
    unfolding m spec_catalog_def by (simp only: dom_map_upds dom_fun_upd dom_empty) auto
  from m d show ?thesis
    by (rule conjI)
qed

section \<open>The run of the driver\<close>

lemma take_events:
  "take 3 [a, b, c, d, e, f, g, h] = [a, b, c]"
  "take 4 [a, b, c, d, e, f, g, h] = [a, b, c, d]"
  "take 5 [a, b, c, d, e, f, g, h] = [a, b, c, d, e]"
  "take 6 [a, b, c, d, e, f, g, h] = [a, b, c, d, e, f]"
  "take 7 [a, b, c, d, e, f, g, h] = [a, b, c, d, e, f, g]"
  "take 8 [a, b, c, d, e, f, g, h] = [a, b, c, d, e, f, g, h]"
  by simp_all

lemma str_of_nat_digit: "n < 10 \<Longrightarrow> str_of_nat n = [''0123456789'' ! n]"
  by (simp add: str_of_nat.simps)

lemma str_of_nat_1000: "str_of_nat 1000 = ''1000''"
  by (simp add: str_of_nat.simps)

lemma str_of_int_minus_1: "str_of_int (- 1) = ''-1''"
  by (simp add: str_of_int_def str_of_nat.simps)

text \<open>A run that ends in an exception has written no file.\<close>

lemma cli_main_failure_saves_nothing:
  "snd (cli_main ext argv) = Inl e \<Longrightarrow> artifacts (fst (cli_main ext argv)) = []"
  by (auto simp add: cli_main_def Let_def artifacts_def List.map_filter_simps
            split: sum.splits prod.splits)

text \<open>
  C7. In every execution of \<open>cli_main\<close>, whatever the collaborators do and wherever the run
  stops, the actions taken are an initial part of the sequence: seed the global random
  state with \<open>1234\<close>, build the parser, parse the arguments, construct the model adapter,
  the dataset adapter and the orchestrator, fit, save. The part always holds the first
  three, so seeding comes first and before everything else.
\<close>

theorem cli_main_seeds_first:
  "\<exists>n obj f. fst (cli_main ext argv) =
      take n [SeedEverything 1234, BuildParser, ParseArgs, ConstructModel, ConstructDataModule,
              ConstructTrainer, Fit, TorchSave obj f] \<and> 3 \<le> n"
proof -
  define P :: "('a, 'b, 'c) event list \<Rightarrow> bool" where
    "P t \<longleftrightarrow> (\<exists>n obj f. t =
      take n [SeedEverything 1234, BuildParser, ParseArgs, ConstructModel, ConstructDataModule,
              ConstructTrainer, Fit, TorchSave obj f] \<and> 3 \<le> n)" for t
  have p3: "P [SeedEverything 1234, BuildParser, ParseArgs]"
    unfolding P_def by (rule exI [of _ 3]) (simp add: take_events)
  have p4: "P [SeedEverything 1234, BuildParser, ParseArgs, ConstructModel]"
    unfolding P_def by (rule exI [of _ 4]) (simp add: take_events)
  have p5: "P [SeedEverything 1234, BuildParser, ParseArgs, ConstructModel, ConstructDataModule]"
    unfolding P_def by (rule exI [of _ 5]) (simp add: take_events)
  have p6: "P [SeedEverything 1234, BuildParser, ParseArgs, ConstructModel, ConstructDataModule,
               ConstructTrainer]"
    unfolding P_def by (rule exI [of _ 6]) (simp add: take_events)
  have p7: "P [SeedEverything 1234, BuildParser, ParseArgs, ConstructModel, ConstructDataModule,
               ConstructTrainer, Fit]"
    unfolding P_def by (rule exI [of _ 7]) (simp add: take_events)
  have p8: "P [SeedEverything 1234, BuildParser, ParseArgs, ConstructModel, ConstructDataModule,
               ConstructTrainer, Fit, TorchSave obj f]" for obj f
    unfolding P_def by (rule exI [of _ 8]) (simp add: take_events)
  have "P (fst (cli_main ext argv))"
    unfolding cli_main_def Let_def
    by (simp add: p3 p4 p5 p6 p7 p8 split: sum.splits prod.splits)
  then show ?thesis
    unfolding P_def .
qed

text \<open>
  C3. When parsing, the three constructions and the orchestrator's \<open>fit\<close> succeed,
  \<open>cli_main\<close> completes and has written exactly one file: the generator network of the
  fitted adapter, under the name
  \<^verbatim>\<open>srresnet-epoch=<max_epochs>-step=<global_step>.pt\<close>, with the parsed \<^verbatim>\<open>max_epochs\<close>
  option and the orchestrator's step count after \<open>fit\<close>.
\<close>

theorem cli_main_saves_once:
  assumes "parse_args ext
             (add_model_specific_args (trainer_add_argparse_args ext (dm_add_argparse_args ext
                (add_argument [] ''--log_interval'' (PyInt 1000) TInt)))) argv = Inr args"
    and "SRResNet_init (SRGANGenerator ext) (Some (image_channels args)) (Some (feature_maps args))
           (Some (learning_rate args)) (kwargs_of args) = Inr model"
    and "dm_from_argparse_args ext args = Inr dm"
    and "trainer_from_argparse_args ext args [SRImageLoggerCallback (log_interval args)] = Inr trainer"
    and "fit ext trainer model dm = Inr (model1, trainer1)"
  shows "snd (cli_main ext argv) = Inr () \<and>
         artifacts (fst (cli_main ext argv)) =
           [(''srresnet-epoch='' @ str_of_int_option (max_epochs args) @ ''-step=''
               @ str_of_nat (global_step ext trainer1) @ ''.pt'', srresnet model1)]"
  using assms by (simp add: cli_main_def Let_def artifacts_def List.map_filter_simps)

text \<open>A run with \<^verbatim>\<open>max_epochs = 5\<close> on zero batches writes \<^verbatim>\<open>srresnet-epoch=5-step=0.pt\<close>.\<close>

theorem cli_main_saves_once_witness:
  "snd (cli_main (stub_externals (default_namespace\<lparr>max_epochs := Some 5\<rparr>)) None) = Inr () \<and>
   artifacts (fst (cli_main (stub_externals (default_namespace\<lparr>max_epochs := Some 5\<rparr>)) None)) =
     [(''srresnet-epoch=5-step=0.pt'', double_net)]"
proof -
  let ?ns = "default_namespace\<lparr>max_epochs := Some 5\<rparr>"
  let ?ext = "stub_externals ?ns"
  let ?model = "\<lparr>hparams = \<lparr>image_channels = 3, feature_maps = 64, learning_rate = Finite (1 / 10000),
                    kwargs = kwargs_of ?ns |` (- excluded_names)\<rparr>, srresnet = double_net,
                  logged = []\<rparr> :: (real, real, unit, real) SRResNet"
  have 1: "parse_args ?ext
             (add_model_specific_args (trainer_add_argparse_args ?ext (dm_add_argparse_args ?ext
                (add_argument [] ''--log_interval'' (PyInt 1000) TInt)))) None = Inr ?ns"
    by (simp add: stub_externals_def)
  have 2: "SRResNet_init (SRGANGenerator ?ext) (Some (image_channels ?ns)) (Some (feature_maps ?ns))
           (Some (learning_rate ?ns)) (kwargs_of ?ns) = Inr ?model"
    by (simp add: stub_externals_def SRResNet_init_def default_namespace_def kwargs_of_def
          signature_names_def)
  have 3: "dm_from_argparse_args ?ext ?ns = Inr ()"
    by (simp add: stub_externals_def)
  have 4: "trainer_from_argparse_args ?ext ?ns [SRImageLoggerCallback (log_interval ?ns)] = Inr 0"
    by (simp add: stub_externals_def)
  have 5: "fit ?ext 0 ?model () = Inr (?model, 0)"
    by (simp add: stub_externals_def)
  have 6: "str_of_int_option (max_epochs ?ns) = ''5''"
    by (simp add: str_of_int_option_def str_of_int_def str_of_nat_digit)
  have 7: "str_of_nat (global_step ?ext 0) = ''0''"
    by (simp add: stub_externals_def str_of_nat_digit)
  from cli_main_saves_once [OF 1 2 3 4 5] 6 7 show ?thesis
    by simp
qed

text \<open>
  C4, as stated: the hyperparameter set is serialized in the artifact written at the end of
  a run. The saved object is \<^verbatim>\<open>model.srresnet\<close>, the generator network alone: two runs
  on zero batches that differ in the learning rate write the same file with the same
  content, so the learning rate is not in the artifact.
\<close>

theorem artifact_lacks_hparams_counterexample:
  "artifacts (fst (cli_main (stub_externals default_namespace) None)) =
     [(''srresnet-epoch=None-step=0.pt'', double_net)] \<and>
   artifacts (fst (cli_main (stub_externals (default_namespace\<lparr>learning_rate := Finite (1 / 1000)\<rparr>)) None)) =
     [(''srresnet-epoch=None-step=0.pt'', double_net)] \<and>
   learning_rate default_namespace \<noteq> learning_rate (default_namespace\<lparr>learning_rate := Finite (1 / 1000)\<rparr>)"
  by (simp add: cli_main_def Let_def artifacts_def List.map_filter_simps stub_externals_def
        SRResNet_init_def default_namespace_def kwargs_of_def signature_names_def
        str_of_int_option_def str_of_nat_digit)

text \<open>
  C4, amended: the hyperparameter set is fixed when the adapter is constructed (in a run,
  from the parsed options, without the names that \<^verbatim>\<open>save_hyperparameters()\<close> leaves out)
  and neither \<open>forward\<close> nor \<open>training_step\<close> changes it; the
  artifact written at the end of a run holds the generator network of the fitted adapter
  and nothing else.
\<close>

theorem hparams_fixed_artifact_is_generator:
  assumes "parse_args ext
             (add_model_specific_args (trainer_add_argparse_args ext (dm_add_argparse_args ext
                (add_argument [] ''--log_interval'' (PyInt 1000) TInt)))) argv = Inr args"
    and "SRResNet_init (SRGANGenerator ext) (Some (image_channels args)) (Some (feature_maps args))
           (Some (learning_rate args)) (kwargs_of args) = Inr model"
    and "dm_from_argparse_args ext args = Inr dm"
    and "trainer_from_argparse_args ext args [SRImageLoggerCallback (log_interval args)] = Inr trainer"
    and "fit ext trainer model dm = Inr (model1, trainer1)"
  shows "hparams model =
           \<lparr>image_channels = image_channels args, feature_maps = feature_maps args,
            learning_rate = learning_rate args, kwargs = kwargs_of args |` (- excluded_names)\<rparr> \<and>
         hparams (snd (forward model x)) = hparams model \<and>
         hparams (snd (training_step mse_loss model batch i)) = hparams model \<and>
         map snd (artifacts (fst (cli_main ext argv))) = [srresnet model1]"
proof -
  from assms(2) have "hparams model =
           \<lparr>image_channels = image_channels args, feature_maps = feature_maps args,
            learning_rate = learning_rate args, kwargs = kwargs_of args |` (- excluded_names)\<rparr>"
    by (auto simp add: SRResNet_init_def Let_def split: if_splits sum.splits)
  moreover have "hparams (snd (forward model x)) = hparams model"
    by (rule forward_hparams)
  moreover have "hparams (snd (training_step mse_loss model batch i)) = hparams model"
    by (rule training_step_hparams)
  moreover from assms have "map snd (artifacts (fst (cli_main ext argv))) = [srresnet model1]"
    by (simp add: cli_main_def Let_def artifacts_def List.map_filter_simps)
  ultimately show ?thesis
    by simp
qed

theorem hparams_fixed_artifact_is_generator_witness:
  "hparams (snd (training_step mse_loss_1
      \<lparr>hparams = \<lparr>image_channels = 3, feature_maps = 64, learning_rate = Finite (1 / 10000),
                  kwargs = kwargs_of default_namespace |` (- excluded_names)\<rparr>,
       srresnet = double_net, logged = []\<rparr>
      [10, 3] 0)) =
     \<lparr>image_channels = 3, feature_maps = 64, learning_rate = Finite (1 / 10000),
      kwargs = kwargs_of default_namespace |` (- excluded_names)\<rparr> \<and>
   map snd (artifacts (fst (cli_main (stub_externals default_namespace) None))) = [double_net]"
proof -
  let ?ns = "default_namespace"
  let ?ext = "stub_externals ?ns"
  let ?model = "\<lparr>hparams = \<lparr>image_channels = 3, feature_maps = 64, learning_rate = Finite (1 / 10000),
                    kwargs = kwargs_of ?ns |` (- excluded_names)\<rparr>, srresnet = double_net,
                  logged = []\<rparr> :: (real, real, unit, real) SRResNet"
  have 1: "parse_args ?ext
             (add_model_specific_args (trainer_add_argparse_args ?ext (dm_add_argparse_args ?ext
                (add_argument [] ''--log_interval'' (PyInt 1000) TInt)))) None = Inr ?ns"
    by (simp add: stub_externals_def)
  have 2: "SRResNet_init (SRGANGenerator ?ext) (Some (image_channels ?ns)) (Some (feature_maps ?ns))
           (Some (learning_rate ?ns)) (kwargs_of ?ns) = Inr ?model"
    by (simp add: stub_externals_def SRResNet_init_def default_namespace_def kwargs_of_def
          signature_names_def)
  have 3: "dm_from_argparse_args ?ext ?ns = Inr ()"
    by (simp add: stub_externals_def)
  have 4: "trainer_from_argparse_args ?ext ?ns [SRImageLoggerCallback (log_interval ?ns)] = Inr 0"
    by (simp add: stub_externals_def)
  have 5: "fit ?ext 0 ?model () = Inr (?model, 0)"
    by (simp add: stub_externals_def)
  from hparams_fixed_artifact_is_generator
         [OF 1 2 3 4 5, where mse_loss = mse_loss_1 and batch = "[10, 3]" and i = 0]
  show ?thesis
    by (simp add: default_namespace_def del: training_step.simps)
qed

end
